theory Spec2Isabelle
  imports Main "HOL-Library.Sublist"
begin

section \<open>Dynamic values and Go's quoting verb\<close>

text \<open>
  Go's \<open>interface{}\<close> values, as far as the code under study inspects them: the nil
  interface, booleans, integers, strings (byte lists), slices, and drops, that is values
  whose type has a \<open>ToLiquid()\<close> method (\<open>redConvertible\<close> in the conversion tests is
  one); \<open>VDrop v\<close> is a drop whose method returns \<open>v\<close>.
\<close>

datatype val =
    VNil
  | VBool bool
  | VInt int
  | VString string
  | VSlice "val list"
  | VDrop val

text \<open>
  \<open>fmt.Sprintf("%q", s)\<close> is \<open>strconv.Quote s\<close>. The string is read rune by rune
  (\<open>utf8.DecodeRuneInString\<close>): a byte that starts no valid UTF-8 sequence is written
  as \<open>\xNN\<close>; the quote and the backslash are backslashed; a printable rune is copied
  in its UTF-8 encoding; the other runes are written as Go escapes. Strings are byte
  lists, runes are code points.

  \<open>strconv.IsPrint\<close> decides Latin-1 by comparisons and the code points beyond it by
  the tables of the Go library. The tables are a parameter here: a predicate on code
  points, consulted only above \<open>0xFF\<close>.
\<close>

type_synonym printTable = "nat \<Rightarrow> bool"

definition hexDigit :: "nat \<Rightarrow> char" where
  "hexDigit n = ''0123456789abcdef'' ! (n mod 16)"

definition RuneError :: nat where
  "RuneError = 0xFFFD"

definition isCont :: "nat \<Rightarrow> bool" where
  "isCont b = (0x80 \<le> b \<and> b \<le> 0xBF)"

text \<open>
  \<open>utf8.DecodeRuneInString\<close> on the bytes of a string: the rune and its width. An
  encoding that is cut short, overlong, of a surrogate or beyond \<open>U+10FFFF\<close> gives
  \<open>(RuneError, 1)\<close>.
\<close>

fun DecodeRune :: "nat list \<Rightarrow> nat \<times> nat" where
  "DecodeRune [] = (RuneError, 0)"
| "DecodeRune (b0 # bs) =
     (if b0 < 0x80 then (b0, 1)
      else if 0xC2 \<le> b0 \<and> b0 \<le> 0xDF then
        (case bs of
           b1 # _ \<Rightarrow>
             if isCont b1 then ((b0 - 0xC0) * 64 + (b1 - 0x80), 2) else (RuneError, 1)
         | _ \<Rightarrow> (RuneError, 1))
      else if 0xE0 \<le> b0 \<and> b0 \<le> 0xEF then
        (case bs of
           b1 # b2 # _ \<Rightarrow>
             if (if b0 = 0xE0 then 0xA0 else 0x80) \<le> b1
                \<and> b1 \<le> (if b0 = 0xED then 0x9F else 0xBF) \<and> isCont b2
             then (((b0 - 0xE0) * 64 + (b1 - 0x80)) * 64 + (b2 - 0x80), 3)
             else (RuneError, 1)
         | _ \<Rightarrow> (RuneError, 1))
      else if 0xF0 \<le> b0 \<and> b0 \<le> 0xF4 then
        (case bs of
           b1 # b2 # b3 # _ \<Rightarrow>
             if (if b0 = 0xF0 then 0x90 else 0x80) \<le> b1
                \<and> b1 \<le> (if b0 = 0xF4 then 0x8F else 0xBF) \<and> isCont b2 \<and> isCont b3
             then ((((b0 - 0xF0) * 64 + (b1 - 0x80)) * 64 + (b2 - 0x80)) * 64 + (b3 - 0x80), 4)
             else (RuneError, 1)
         | _ \<Rightarrow> (RuneError, 1))
      else (RuneError, 1))"

text \<open>\<open>utf8.AppendRune\<close>: the UTF-8 encoding of a rune; an invalid rune is encoded as \<open>U+FFFD\<close>.\<close>

definition EncodeRune :: "nat \<Rightarrow> string" where
  "EncodeRune r =
     (if r < 0x80 then [char_of r]
      else if r < 0x800 then [char_of (0xC0 + r div 64), char_of (0x80 + r mod 64)]
      else if (0xD800 \<le> r \<and> r \<le> 0xDFFF) \<or> 0x10FFFF < r then [CHR 0xEF, CHR 0xBF, CHR 0xBD]
      else if r < 0x10000 then
        [char_of (0xE0 + r div 4096), char_of (0x80 + (r div 64) mod 64), char_of (0x80 + r mod 64)]
      else
        [char_of (0xF0 + r div 262144), char_of (0x80 + (r div 4096) mod 64),
         char_of (0x80 + (r div 64) mod 64), char_of (0x80 + r mod 64)])"

definition IsPrint :: "printTable \<Rightarrow> nat \<Rightarrow> bool" where
  "IsPrint tbl r =
     (if r \<le> 0xFF then (0x20 \<le> r \<and> r \<le> 0x7E) \<or> (0xA1 \<le> r \<and> r \<noteq> 0xAD)
      else tbl r)"

text \<open>\<open>appendEscapedRune\<close>, as \<open>Quote\<close> calls it: the quote is the double quote.\<close>

definition escapedRune :: "printTable \<Rightarrow> nat \<Rightarrow> string" where
  "escapedRune tbl r =
     (if r = 0x22 \<or> r = 0x5C then [CHR 0x5C, char_of r]
      else if IsPrint tbl r then EncodeRune r
      else if r = 7 then [CHR 0x5C, CHR ''a'']
      else if r = 8 then [CHR 0x5C, CHR ''b'']
      else if r = 12 then [CHR 0x5C, CHR ''f'']
      else if r = 10 then [CHR 0x5C, CHR ''n'']
      else if r = 13 then [CHR 0x5C, CHR ''r'']
      else if r = 9 then [CHR 0x5C, CHR ''t'']
      else if r = 11 then [CHR 0x5C, CHR ''v'']
      else if r < 0x20 \<or> r = 0x7F then [CHR 0x5C, CHR ''x'', hexDigit (r div 16), hexDigit r]
      else
        (let r' = (if (0xD800 \<le> r \<and> r \<le> 0xDFFF) \<or> 0x10FFFF < r then RuneError else r)
         in if r' < 0x10000 then
              [CHR 0x5C, CHR ''u'', hexDigit (r' div 4096), hexDigit (r' div 256),
               hexDigit (r' div 16), hexDigit r']
            else
              [CHR 0x5C, CHR ''U'', hexDigit (r' div 268435456), hexDigit (r' div 16777216),
               hexDigit (r' div 1048576), hexDigit (r' div 65536), hexDigit (r' div 4096),
               hexDigit (r' div 256), hexDigit (r' div 16), hexDigit r']))"

text \<open>
  The loop of \<open>Quote\<close>. The width of a rune is at least 1, so the string that remains
  after the first byte \<open>c\<close> loses \<open>width - 1\<close> more bytes.
\<close>

fun quoteFrom :: "printTable \<Rightarrow> string \<Rightarrow> string" where
  "quoteFrom tbl [] = []"
| "quoteFrom tbl (c # cs) =
     (case DecodeRune (map of_char (c # cs)) of
        (r, width) \<Rightarrow>
          (if width = 1 \<and> r = RuneError
           then [CHR 0x5C, CHR ''x'', hexDigit (of_char c div 16), hexDigit (of_char c)]
           else escapedRune tbl r)
          @ quoteFrom tbl (drop (width - 1) cs))"

definition Quote :: "printTable \<Rightarrow> string \<Rightarrow> string" where
  "Quote tbl s = CHR 0x22 # quoteFrom tbl s @ [CHR 0x22]"

text \<open>
  A table for the concrete evaluations: it holds no code point. The strings evaluated
  are ASCII, for which no table is consulted.
\<close>

definition emptyTable :: printTable where
  "emptyTable r = False"

text \<open>
  A character that \<open>Quote\<close> copies whatever the table: printable ASCII but the double
  quote and the backslash.
\<close>

definition plainChar :: "char \<Rightarrow> bool" where
  "plainChar c =
     (let n = (of_char c :: nat) in 0x20 \<le> n \<and> n \<le> 0x7E \<and> n \<noteq> 0x22 \<and> n \<noteq> 0x5C)"

text \<open>A word character, \<open>\w\<close> of Go's regular expressions: an ASCII letter, digit or underscore.\<close>

definition wordChar :: "char \<Rightarrow> bool" where
  "wordChar c =
     (let n = (of_char c :: nat) in
      (48 \<le> n \<and> n \<le> 57) \<or> (65 \<le> n \<and> n \<le> 90) \<or> (97 \<le> n \<and> n \<le> 122) \<or> n = 95)"

definition isWord :: "string \<Rightarrow> bool" where
  "isWord s = list_all wordChar s"

section \<open>expressions: undefined-reference policies and the configuration\<close>

text \<open>
  \<open>StrictMode\<close> and \<open>LaxMode\<close> are the two implementations of both handler
  interfaces. A handler of strict mode panics; the panic value is an error value.
\<close>

datatype Mode = StrictMode | LaxMode

datatype panicValue = UndefinedFilter string | UndefinedVariable string

text \<open>\<open>UndefinedVariable.Error\<close>: \<open>fmt.Sprintf("undefined variable %q", string(e))\<close>.\<close>

definition UndefinedVariable_Error :: "printTable \<Rightarrow> string \<Rightarrow> string" where
  "UndefinedVariable_Error tbl e = ''undefined variable '' @ Quote tbl e"

text \<open>
  A filter is stored as an \<open>interface{}\<close> holding a function. \<open>Func1 f\<close> is a Go
  function of type \<open>func(interface{}) interface{}\<close>; \<open>OtherFunc x\<close> is any other
  registered callable, which the configuration never inspects.
\<close>

datatype 'f filterValue = Func1 "val \<Rightarrow> val" | OtherFunc 'f

definition identityFilter :: "val \<Rightarrow> val" where
  "identityFilter i = i"

fun OnUndefinedFilter :: "Mode \<Rightarrow> string \<Rightarrow> panicValue + 'f filterValue" where
  "OnUndefinedFilter StrictMode name = Inl (UndefinedFilter name)"
| "OnUndefinedFilter LaxMode name = Inr (Func1 identityFilter)"

fun OnUndefinedVariable :: "Mode \<Rightarrow> string \<Rightarrow> panicValue + val" where
  "OnUndefinedVariable StrictMode name = Inl (UndefinedVariable name)"
| "OnUndefinedVariable LaxMode name = Inr VNil"

record 'f Config =
  filters :: "string \<rightharpoonup> 'f filterValue"
  FilterErrorMode :: Mode
  VariableErrorMode :: Mode

text \<open>\<open>NewConfig\<close> leaves the filter map nil: no name is registered.\<close>

definition NewConfig :: "'f Config" where
  "NewConfig = \<lparr> filters = Map.empty, FilterErrorMode = StrictMode, VariableErrorMode = LaxMode \<rparr>"

definition GetFilter :: "'f Config \<Rightarrow> string \<Rightarrow> panicValue + 'f filterValue" where
  "GetFilter c name =
     (case filters c name of
        Some v \<Rightarrow> Inr v
      | None \<Rightarrow> OnUndefinedFilter (FilterErrorMode c) name)"

definition GetVariable :: "'f Config \<Rightarrow> (string \<rightharpoonup> val) \<Rightarrow> string \<Rightarrow> panicValue + val" where
  "GetVariable c bindings name =
     (case bindings name of
        Some v \<Rightarrow> Inr v
      | None \<Rightarrow> OnUndefinedVariable (VariableErrorMode c) name)"

section \<open>parser: tokens, grammar and the syntax tree\<close>

datatype TokenType = TextTokenType | TagTokenType | ObjTokenType

record SourceLoc =
  Pathname :: string
  LineNo :: int

record Token =
  Type :: TokenType
  SourceLoc :: SourceLoc
  Name :: string
  Args :: string
  Source :: string
  TrimLeft :: bool
  TrimRight :: bool

text \<open>
  \<open>Grammar\<close> and \<open>BlockSyntax\<close> are interfaces. A block syntax is a value of an
  arbitrary type \<open>'s\<close>; the record holds the grammar's lookup (\<open>None\<close> for
  \<open>ok = false\<close>) and the methods of the syntax values it returns.
\<close>

record 's Grammar =
  BlockSyntax :: "string \<Rightarrow> 's option"
  CanHaveParent :: "'s \<Rightarrow> 's \<Rightarrow> bool"
  IsBlockEnd :: "'s \<Rightarrow> bool"
  IsBlockStart :: "'s \<Rightarrow> bool"
  IsClause :: "'s \<Rightarrow> bool"
  ParentTags :: "'s \<Rightarrow> string list"
  RequiresParent :: "'s \<Rightarrow> bool"
  TagName :: "'s \<Rightarrow> string"

text \<open>
  The tree is built through pointers, so the model keeps the objects that are mutated
  after their creation in a store: \<open>*ASTBlock\<close> and \<open>*ASTRaw\<close> are addresses, the
  index of the object in the list of all blocks (of all raw nodes) allocated so far.
  Text, object and tag nodes are never changed once appended and are kept as values.
\<close>

type_synonym addr = nat

datatype 'e ASTNode =
    ASTText Token
  | ASTObject Token 'e
  | ASTTag Token
  | ASTRaw addr
  | ASTBlock addr

record ('s, 'e) ASTBlockObj =
  Token :: Token
  syntax' :: 's
  Body :: "'e ASTNode list"
  Clauses :: "addr list"

text \<open>
  A \<open>*[]ASTNode\<close> is the address of a slice field: the children of the root, or the
  body of a block.
\<close>

datatype appendPoint = RootChildren | BodyOf addr

record 's frame =
  f_syntax :: "'s option"
  f_node :: "addr option"
  f_ap :: appendPoint

text \<open>
  The local variables of \<open>parseTokens\<close> and the objects they point to: \<open>Children\<close>
  is \<open>root.Children\<close>, \<open>blocks\<close> the blocks allocated so far, \<open>raws\<close> the
  \<open>Slices\<close> of the raw nodes allocated so far.
\<close>

record ('s, 'e) pstate =
  Children :: "'e ASTNode list"
  blocks :: "('s, 'e) ASTBlockObj list"
  raws :: "string list list"
  ap :: appendPoint
  sd :: "'s option"
  bn :: "addr option"
  stack :: "'s frame list"
  rawTag :: "addr option"
  inComment :: bool
  inRaw :: bool

text \<open>
  Errors: \<open>Errorf(loc, format, ...)\<close> keeps the token it is located at and the
  formatted message; \<open>WrapError(err, tok)\<close> keeps the expression parser's error and
  the token. The Go runtime's panics are values too.
\<close>

datatype 'x Error =
    Errorf Token string
  | WrapError 'x Token
  | PanicNilDereference
  | PanicIndexOutOfRange
  | PanicBlockType string

text \<open>What \<open>parseTokens\<close> returns on success: the root sequence and the objects its nodes point to.\<close>

record ('s, 'e) ASTSeq =
  seqChildren :: "'e ASTNode list"
  seqBlocks :: "('s, 'e) ASTBlockObj list"
  seqRaws :: "string list list"

text \<open>\<open>strings.Join\<close>.\<close>

fun Join :: "string list \<Rightarrow> string \<Rightarrow> string" where
  "Join [] sep = []"
| "Join [x] sep = x"
| "Join (x # y # ys) sep = x @ sep @ Join (y # ys) sep"

text \<open>\<open>*ap = append(*ap, n)\<close>.\<close>

definition appendAt :: "'e ASTNode \<Rightarrow> ('s, 'e) pstate \<Rightarrow> ('s, 'e) pstate" where
  "appendAt n s =
     (case ap s of
        RootChildren \<Rightarrow> s\<lparr>Children := Children s @ [n]\<rparr>
      | BodyOf a \<Rightarrow>
          s\<lparr>blocks := (blocks s)[a := (blocks s ! a)\<lparr>Body := Body (blocks s ! a) @ [n]\<rparr>]\<rparr>)"

definition initState :: "('s, 'e) pstate" where
  "initState = \<lparr> Children = [], blocks = [], raws = [], ap = RootChildren, sd = None,
     bn = None, stack = [], rawTag = None, inComment = False, inRaw = False \<rparr>"

text \<open>The closure \<open>push\<close> followed by \<open>ap = &bn.Body\<close>.\<close>

definition pushBlock :: "Token \<Rightarrow> 's \<Rightarrow> ('s, 'e) pstate \<Rightarrow> ('s, 'e) pstate" where
  "pushBlock tok cs s =
     (let a = length (blocks s);
          s1 = s\<lparr>stack := stack s @ [\<lparr>f_syntax = sd s, f_node = bn s, f_ap = ap s\<rparr>]\<rparr>;
          s2 = s1\<lparr>sd := Some cs, bn := Some a,
                 blocks := blocks s1 @ [\<lparr>Token = tok, syntax' = cs, Body = [], Clauses = []\<rparr>]\<rparr>;
          s3 = appendAt (ASTBlock a) s2
      in s3\<lparr>ap := BodyOf a\<rparr>)"

text \<open>The clause case: \<open>bn.Clauses\<close> dereferences \<open>bn\<close>, which panics when it is nil.\<close>

definition addClause :: "Token \<Rightarrow> 's \<Rightarrow> ('s, 'e) pstate \<Rightarrow> 'x Error + ('s, 'e) pstate" where
  "addClause tok cs s =
     (let n = length (blocks s);
          s1 = s\<lparr>blocks := blocks s @ [\<lparr>Token = tok, syntax' = cs, Body = [], Clauses = []\<rparr>]\<rparr>
      in case bn s1 of
           None \<Rightarrow> Inl PanicNilDereference
         | Some b \<Rightarrow>
             Inr (s1\<lparr>blocks := (blocks s1)[b := (blocks s1 ! b)\<lparr>Clauses := Clauses (blocks s1 ! b) @ [n]\<rparr>],
                     ap := BodyOf n\<rparr>))"

text \<open>The closure \<open>pop\<close>: \<open>stack[len(stack)-1]\<close> panics on the empty stack.\<close>

definition popBlock :: "('s, 'e) pstate \<Rightarrow> 'x Error + ('s, 'e) pstate" where
  "popBlock s =
     (if stack s = [] then Inl PanicIndexOutOfRange
      else let f = last (stack s)
           in Inr (s\<lparr>stack := butlast (stack s), sd := f_syntax f, bn := f_node f, ap := f_ap f\<rparr>))"

text \<open>The message of the parent error.\<close>

definition notInsideMessage :: "'s Grammar \<Rightarrow> Token \<Rightarrow> 's \<Rightarrow> 's option \<Rightarrow> string" where
  "notInsideMessage g tok cs parent =
     (let suffix = (case parent of None \<Rightarrow> [] | Some p \<Rightarrow> ''; immediate parent is '' @ TagName g p)
      in Name tok @ '' not inside '' @ Join (ParentTags g cs) '' or '' @ suffix)"

text \<open>
  The body of the loop of \<open>parseTokens\<close>, for one token. \<open>parseExpr\<close> is
  \<open>expressions.Parse\<close>.
\<close>

definition parseToken ::
  "'s Grammar \<Rightarrow> (string \<Rightarrow> 'x + 'e) \<Rightarrow> Token \<Rightarrow> ('s, 'e) pstate \<Rightarrow> 'x Error + ('s, 'e) pstate" where
  "parseToken g parseExpr tok s =
     (if inComment s then
        (if Type tok = TagTokenType \<and> Name tok = ''endcomment''
         then Inr (s\<lparr>inComment := False\<rparr>) else Inr s)
      else if inRaw s then
        (if Type tok = TagTokenType \<and> Name tok = ''endraw'' then Inr (s\<lparr>inRaw := False\<rparr>)
         else case rawTag s of
                None \<Rightarrow> Inr s
              | Some r \<Rightarrow> Inr (s\<lparr>raws := (raws s)[r := raws s ! r @ [Source tok]]\<rparr>))
      else case Type tok of
        ObjTokenType \<Rightarrow>
          (case parseExpr (Args tok) of
             Inl err \<Rightarrow> Inl (WrapError err tok)
           | Inr expr \<Rightarrow> Inr (appendAt (ASTObject tok expr) s))
      | TextTokenType \<Rightarrow> Inr (appendAt (ASTText tok) s)
      | TagTokenType \<Rightarrow>
          (case BlockSyntax g (Name tok) of
             None \<Rightarrow> Inr (appendAt (ASTTag tok) s)
           | Some cs \<Rightarrow>
               if Name tok = ''comment'' then Inr (s\<lparr>inComment := True\<rparr>)
               else if Name tok = ''raw'' then
                 Inr (appendAt (ASTRaw (length (raws s)))
                        (s\<lparr>inRaw := True, rawTag := Some (length (raws s)), raws := raws s @ [[]]\<rparr>))
               else if RequiresParent g cs
                       \<and> (case sd s of None \<Rightarrow> True | Some p \<Rightarrow> \<not> CanHaveParent g cs p)
                 then Inl (Errorf tok (notInsideMessage g tok cs (sd s)))
               else if IsBlockStart g cs then Inr (pushBlock tok cs s)
               else if IsClause g cs then addClause tok cs s
               else if IsBlockEnd g cs then popBlock s
               else Inl (PanicBlockType (Name tok))))"

text \<open>The loop over the tokens: the first error ends it.\<close>

fun parseLoop ::
  "'s Grammar \<Rightarrow> (string \<Rightarrow> 'x + 'e) \<Rightarrow> Token list \<Rightarrow> ('s, 'e) pstate \<Rightarrow> 'x Error + ('s, 'e) pstate" where
  "parseLoop g parseExpr [] s = Inr s"
| "parseLoop g parseExpr (tok # toks) s =
     (case parseToken g parseExpr tok s of
        Inl e \<Rightarrow> Inl e
      | Inr s' \<Rightarrow> parseLoop g parseExpr toks s')"

text \<open>The check after the loop: \<open>Errorf(bn, "unterminated %q block", bn.Name)\<close>.\<close>

definition unterminatedMessage :: "printTable \<Rightarrow> string \<Rightarrow> string" where
  "unterminatedMessage tbl name = ''unterminated '' @ Quote tbl name @ '' block''"

definition finish :: "printTable \<Rightarrow> ('s, 'e) pstate \<Rightarrow> 'x Error + ('s, 'e) ASTSeq" where
  "finish tbl s =
     (case bn s of
        Some b \<Rightarrow> Inl (Errorf (Token (blocks s ! b)) (unterminatedMessage tbl (Name (Token (blocks s ! b)))))
      | None \<Rightarrow> Inr \<lparr> seqChildren = Children s, seqBlocks = blocks s, seqRaws = raws s \<rparr>)"

definition parseTokens ::
  "printTable \<Rightarrow> 's Grammar \<Rightarrow> (string \<Rightarrow> 'x + 'e) \<Rightarrow> Token list \<Rightarrow> 'x Error + ('s, 'e) ASTSeq" where
  "parseTokens tbl g parseExpr tokens =
     (case parseLoop g parseExpr tokens initState of
        Inl e \<Rightarrow> Inl e
      | Inr s \<Rightarrow> finish tbl s)"

section \<open>A concrete grammar and concrete tokens\<close>

text \<open>
  Modelled from the spec: the block registry of the render package, whose code is not
  part of the sources studied here. "Register a block by name with zero or more named
  clauses": a block \<open>n\<close> has a start tag \<open>n\<close> and an end tag \<open>endn\<close> whose parent is
  \<open>n\<close>; a clause requires one of the blocks it was registered for as its immediate
  parent. Clauses and end tags require a parent, start tags do not.
\<close>

record blockSyntax =
  sName :: string
  sIsClause :: bool
  sIsEnd :: bool
  sStart :: string
  sParents :: "string list"

definition blockStart :: "string \<Rightarrow> blockSyntax" where
  "blockStart n = \<lparr> sName = n, sIsClause = False, sIsEnd = False, sStart = [], sParents = [] \<rparr>"

definition blockEnd :: "string \<Rightarrow> blockSyntax" where
  "blockEnd n = \<lparr> sName = ''end'' @ n, sIsClause = False, sIsEnd = True, sStart = n, sParents = [] \<rparr>"

definition blockClause :: "string \<Rightarrow> string list \<Rightarrow> blockSyntax" where
  "blockClause n ps = \<lparr> sName = n, sIsClause = True, sIsEnd = False, sStart = [], sParents = ps \<rparr>"

definition grammarOf :: "(string \<times> blockSyntax) list \<Rightarrow> blockSyntax Grammar" where
  "grammarOf defs =
     \<lparr> BlockSyntax = map_of defs,
       CanHaveParent = (\<lambda>s p. if sIsEnd s then sName p = sStart s else sName p \<in> set (sParents s)),
       IsBlockEnd = sIsEnd,
       IsBlockStart = (\<lambda>s. \<not> sIsClause s \<and> \<not> sIsEnd s),
       IsClause = sIsClause,
       ParentTags = (\<lambda>s. if sIsEnd s then [sStart s] else sParents s),
       RequiresParent = (\<lambda>s. sIsClause s \<or> sIsEnd s),
       TagName = sName \<rparr>"

definition blockDefs :: "string \<Rightarrow> (string \<times> blockSyntax) list" where
  "blockDefs n = [(n, blockStart n), (''end'' @ n, blockEnd n)]"

text \<open>
  The blocks that \<open>AddStandardTags\<close> registers: capture, case (when, else), comment,
  for, if (else, elsif), raw, tablerow, unless (else, elsif).
\<close>

definition standardGrammar :: "blockSyntax Grammar" where
  "standardGrammar = grammarOf
     (concat (map blockDefs
        [''capture'', ''case'', ''comment'', ''for'', ''if'', ''raw'', ''tablerow'', ''unless''])
      @ [(''when'', blockClause ''when'' [''case'']),
         (''else'', blockClause ''else'' [''case'', ''if'', ''unless'']),
         (''elsif'', blockClause ''elsif'' [''if'', ''unless''])])"

text \<open>The blocks that the compiler tests register: block and error_block only.\<close>

definition compilerTestGrammar :: "blockSyntax Grammar" where
  "compilerTestGrammar = grammarOf (blockDefs ''block'' @ blockDefs ''error_block'')"

definition tagToken :: "string \<Rightarrow> string \<Rightarrow> string \<Rightarrow> Token" where
  "tagToken n a src = \<lparr> Type = TagTokenType, SourceLoc = \<lparr> Pathname = [], LineNo = 0 \<rparr>,
     Name = n, Args = a, Source = src, TrimLeft = False, TrimRight = False \<rparr>"

definition textToken :: "string \<Rightarrow> Token" where
  "textToken src = \<lparr> Type = TextTokenType, SourceLoc = \<lparr> Pathname = [], LineNo = 0 \<rparr>,
     Name = [], Args = [], Source = src, TrimLeft = False, TrimRight = False \<rparr>"

definition objToken :: "string \<Rightarrow> string \<Rightarrow> Token" where
  "objToken a src = \<lparr> Type = ObjTokenType, SourceLoc = \<lparr> Pathname = [], LineNo = 0 \<rparr>,
     Name = [], Args = a, Source = src, TrimLeft = False, TrimRight = False \<rparr>"

text \<open>An expression parser for the concrete evaluations: it accepts every source and keeps it.\<close>

definition keepSource :: "string \<Rightarrow> unit + string" where
  "keepSource a = Inr a"

section \<open>parser: the scanner\<close>

text \<open>
  Modelled from the spec: \<open>Scan\<close>, the scanner of the parser package, whose code is
  not part of the sources studied here (its tests are). "Repeatedly find the nearest
  occurrence of any of the four delimiter markers in the remaining text. Text preceding
  the nearest marker becomes a Text token verbatim (empty text is suppressed). On
  encountering a tag-left marker, scan to the matching tag-right marker; the interior is
  split into an initial whitespace-delimited name and the remainder (trimmed) as Args.
  Detect and strip a leading - on the marker as a left-trim flag and a trailing - before
  tag-right as a right-trim flag; analogous for object markers (no Name field: the entire
  trimmed interior is Args)." "Source location advances by the newline count." An
  "empty/nil list selects defaults". Of the two policies the spec leaves open for a left
  marker without its right marker, the model takes the second: the marker is literal
  text. A right marker that closes nothing is literal text too, and an empty left marker
  opens nothing.
\<close>

definition defaultDelims :: "string list" where
  "defaultDelims = [''{{'', ''}}'', ''{%'', ''%}'']"

definition delimsOf :: "string list \<Rightarrow> string list" where
  "delimsOf delims = (if length delims = 4 then delims else defaultDelims)"

definition isSpace :: "char \<Rightarrow> bool" where
  "isSpace c = (c = CHR '' '' \<or> (of_char c :: nat) \<in> {9, 10, 11, 12, 13})"

definition trimSpace :: "string \<Rightarrow> string" where
  "trimSpace s = rev (dropWhile isSpace (rev (dropWhile isSpace s)))"

text \<open>The index of the first occurrence of a marker.\<close>

fun findMarker :: "string \<Rightarrow> string \<Rightarrow> nat option" where
  "findMarker m [] = (if m = [] then Some 0 else None)"
| "findMarker m (c # cs) =
     (if prefix m (c # cs) then Some 0 else map_option Suc (findMarker m cs))"

definition advance :: "SourceLoc \<Rightarrow> string \<Rightarrow> SourceLoc" where
  "advance loc s = loc\<lparr>LineNo := LineNo loc + int (length (filter (\<lambda>c. c = CHR 0x0A) s))\<rparr>"

definition textTokens :: "SourceLoc \<Rightarrow> string \<Rightarrow> Token list" where
  "textTokens loc s =
     (if s = [] then []
      else [\<lparr> Type = TextTokenType, SourceLoc = loc, Name = [], Args = [], Source = s,
               TrimLeft = False, TrimRight = False \<rparr>])"

text \<open>The trim flags of an interior, and the interior without them.\<close>

definition leftTrim :: "string \<Rightarrow> bool" where
  "leftTrim interior = (interior \<noteq> [] \<and> hd interior = CHR ''-'')"

definition rightTrim :: "string \<Rightarrow> bool" where
  "rightTrim interior =
     (let i = (if leftTrim interior then tl interior else interior)
      in i \<noteq> [] \<and> last i = CHR ''-'')"

definition stripTrim :: "string \<Rightarrow> string" where
  "stripTrim interior =
     (let i = (if leftTrim interior then tl interior else interior)
      in if i \<noteq> [] \<and> last i = CHR ''-'' then butlast i else i)"

definition objectTokenOf :: "SourceLoc \<Rightarrow> string \<Rightarrow> string \<Rightarrow> Token" where
  "objectTokenOf loc src interior =
     \<lparr> Type = ObjTokenType, SourceLoc = loc, Name = [], Args = trimSpace (stripTrim interior),
       Source = src, TrimLeft = leftTrim interior, TrimRight = rightTrim interior \<rparr>"

definition tagTokenOf :: "SourceLoc \<Rightarrow> string \<Rightarrow> string \<Rightarrow> Token" where
  "tagTokenOf loc src interior =
     (let body = trimSpace (stripTrim interior)
      in \<lparr> Type = TagTokenType, SourceLoc = loc,
            Name = takeWhile (\<lambda>c. \<not> isSpace c) body,
            Args = trimSpace (dropWhile (\<lambda>c. \<not> isSpace c) body),
            Source = src, TrimLeft = leftTrim interior, TrimRight = rightTrim interior \<rparr>)"

text \<open>
  Where a construct opens at the head of the text: the index of its right marker in what
  follows the left marker.
\<close>

definition opensAt :: "string \<Rightarrow> string \<Rightarrow> string \<Rightarrow> nat option" where
  "opensAt left right src =
     (if left \<noteq> [] \<and> prefix left src then findMarker right (drop (length left) src) else None)"

text \<open>
  \<open>loc\<close> is the location of the text not yet emitted, \<open>pend\<close> that text, \<open>src\<close> the
  remaining source.
\<close>

function scanFrom :: "string list \<Rightarrow> SourceLoc \<Rightarrow> string \<Rightarrow> string \<Rightarrow> Token list" where
  "scanFrom d loc pend src =
     (if src = [] then textTokens loc pend
      else case d of
        [oL, oR, tL, tR] \<Rightarrow>
          (case opensAt oL oR src of
             Some i \<Rightarrow>
               (let n = length oL + i + length oR
                in textTokens loc pend
                   @ objectTokenOf (advance loc pend) (take n src) (take i (drop (length oL) src))
                   # scanFrom d (advance loc (pend @ take n src)) [] (drop n src))
           | None \<Rightarrow>
               (case opensAt tL tR src of
                  Some i \<Rightarrow>
                    (let n = length tL + i + length tR
                     in textTokens loc pend
                        @ tagTokenOf (advance loc pend) (take n src) (take i (drop (length tL) src))
                        # scanFrom d (advance loc (pend @ take n src)) [] (drop n src))
                | None \<Rightarrow> scanFrom d loc (pend @ [hd src]) (tl src)))
      | _ \<Rightarrow> [])"
  by pat_completeness auto
termination
  by (relation "measure (\<lambda>(d, loc, pend, src). length src)")
     (auto simp: opensAt_def split: if_splits)

declare scanFrom.simps [simp del]

definition Scan :: "string \<Rightarrow> SourceLoc \<Rightarrow> string list \<Rightarrow> Token list" where
  "Scan source loc delims = scanFrom (delimsOf delims) loc [] source"

text \<open>The delimiters of the scanner tests.\<close>

definition testDelims :: "string list" where
  "testDelims = [''OBJECT@LEFT'', ''OBJECT#RIGHT'', ''TAG*LEFT'', ''TAG!RIGHT'']"

section \<open>The invariant of the block stack\<close>

text \<open>
  The stack and the current block go together: the stack is empty exactly when no block
  is current, and every frame but the oldest saved a current block.
\<close>

fun openChain :: "addr option \<Rightarrow> 's frame list \<Rightarrow> bool" where
  "openChain b [] = (b = None)"
| "openChain b (f # fs) = (b \<noteq> None \<and> openChain (f_node f) fs)"

definition stackInv :: "('s, 'e) pstate \<Rightarrow> bool" where
  "stackInv s = openChain (bn s) (rev (stack s))"

section \<open>render: the compile phase\<close>

text \<open>
  The compiler reads the tree that the parser built. \<open>readNode\<close> follows the
  addresses of a parsed tree and gives the tree as a value; the bound \<open>k\<close> is the
  depth of blocks it may descend, and an address that points to no object gives
  \<open>None\<close>.
\<close>

datatype 'e Tree =
    TText Token
  | TObject Token 'e
  | TTag Token
  | TRaw "string list"
  | TBlock Token "'e Tree list" "'e Tree list"

fun readNode :: "nat \<Rightarrow> ('s, 'e) ASTSeq \<Rightarrow> 'e ASTNode \<Rightarrow> 'e Tree option" where
  "readNode k ast (ASTText t) = Some (TText t)"
| "readNode k ast (ASTObject t e) = Some (TObject t e)"
| "readNode k ast (ASTTag t) = Some (TTag t)"
| "readNode k ast (ASTRaw r) =
     (if r < length (seqRaws ast) then Some (TRaw (seqRaws ast ! r)) else None)"
| "readNode 0 ast (ASTBlock a) = None"
| "readNode (Suc k) ast (ASTBlock a) =
     (if a < length (seqBlocks ast) then
        (case (those (map (readNode k ast) (Body (seqBlocks ast ! a))),
               those (map (\<lambda>c. readNode k ast (ASTBlock c)) (Clauses (seqBlocks ast ! a)))) of
           (Some body, Some clauses) \<Rightarrow> Some (TBlock (Token (seqBlocks ast ! a)) body clauses)
         | _ \<Rightarrow> None)
      else None)"

definition readRoot :: "('s, 'e) ASTSeq \<Rightarrow> 'e Tree list option" where
  "readRoot ast = those (map (readNode (length (seqBlocks ast)) ast) (seqChildren ast))"

text \<open>
  Modelled from the spec: the compile phase of the render package, whose code is not part
  of the sources studied here (its tests are). "Compile phase walks the AST once, for
  each Block/Tag node invoking a registered compiler callback (keyed by tag name) that
  receives the node's arguments/body and returns an executable render function or a
  compile error (propagated immediately, aborting compilation)"; "a tag has no
  registered compiler" is a compile error, reported as "undefined tag", and "no partial
  compiled tree is returned". A render function is a value of an arbitrary type \<open>'r\<close>.
  A block node comes from a block that the grammar registers; its callback is invoked
  when it has one.
\<close>

record 'r compilers =
  tagCompilers :: "string \<rightharpoonup> (string \<Rightarrow> string + 'r)"
  blockCompilers :: "string \<rightharpoonup> (Token \<Rightarrow> string + 'r)"

datatype ('e, 'r) Node =
    TextNode Token
  | ObjectNode Token 'e
  | TagNode Token 'r
  | RawNode "string list"
  | BlockNode Token "'r option" "('e, 'r) Node list" "('e, 'r) Node list"

datatype compileError = UndefinedTag Token | CompilerError Token string

fun compileErrorMessage :: "printTable \<Rightarrow> compileError \<Rightarrow> string" where
  "compileErrorMessage tbl (UndefinedTag t) = ''undefined tag '' @ Quote tbl (Name t)"
| "compileErrorMessage tbl (CompilerError t m) = m"

fun compileNode :: "'r compilers \<Rightarrow> 'e Tree \<Rightarrow> compileError + ('e, 'r) Node"
  and compileNodes :: "'r compilers \<Rightarrow> 'e Tree list \<Rightarrow> compileError + ('e, 'r) Node list" where
  "compileNode c (TText t) = Inr (TextNode t)"
| "compileNode c (TObject t e) = Inr (ObjectNode t e)"
| "compileNode c (TRaw slices) = Inr (RawNode slices)"
| "compileNode c (TTag t) =
     (case tagCompilers c (Name t) of
        None \<Rightarrow> Inl (UndefinedTag t)
      | Some f \<Rightarrow> (case f (Args t) of Inl m \<Rightarrow> Inl (CompilerError t m) | Inr r \<Rightarrow> Inr (TagNode t r)))"
| "compileNode c (TBlock t body clauses) =
     (case compileNodes c body of
        Inl e \<Rightarrow> Inl e
      | Inr b \<Rightarrow>
          (case compileNodes c clauses of
             Inl e \<Rightarrow> Inl e
           | Inr cl \<Rightarrow>
               (case blockCompilers c (Name t) of
                  None \<Rightarrow> Inr (BlockNode t None b cl)
                | Some f \<Rightarrow>
                    (case f t of
                       Inl m \<Rightarrow> Inl (CompilerError t m)
                     | Inr r \<Rightarrow> Inr (BlockNode t (Some r) b cl)))))"
| "compileNodes c [] = Inr []"
| "compileNodes c (n # ns) =
     (case compileNode c n of
        Inl e \<Rightarrow> Inl e
      | Inr x \<Rightarrow> (case compileNodes c ns of Inl e \<Rightarrow> Inl e | Inr xs \<Rightarrow> Inr (x # xs)))"

text \<open>A tag node of the token occurs in the tree, at any depth.\<close>

fun tagOccurs :: "Token \<Rightarrow> 'e Tree \<Rightarrow> bool"
  and tagOccursIn :: "Token \<Rightarrow> 'e Tree list \<Rightarrow> bool" where
  "tagOccurs tok (TText t) = False"
| "tagOccurs tok (TObject t e) = False"
| "tagOccurs tok (TRaw slices) = False"
| "tagOccurs tok (TTag t) = (t = tok)"
| "tagOccurs tok (TBlock t body clauses) = (tagOccursIn tok body \<or> tagOccursIn tok clauses)"
| "tagOccursIn tok [] = False"
| "tagOccursIn tok (n # ns) = (tagOccurs tok n \<or> tagOccursIn tok ns)"

text \<open>The compilers of the compiler tests: block compiles, error_block reports an error.\<close>

definition compilerTestCompilers :: "unit compilers" where
  "compilerTestCompilers =
     \<lparr> tagCompilers = Map.empty,
       blockCompilers = [''block'' \<mapsto> (\<lambda>t. Inr ()),
                         ''error_block'' \<mapsto> (\<lambda>t. Inl ''block compiler error'')] \<rparr>"

section \<open>values: conversion\<close>

text \<open>
  Modelled from the spec: \<open>ToLiquid\<close>, the helper of the values package that
  \<open>Convert\<close> and \<open>Length\<close> call first; its code is not part of the sources
  studied here. The conversion tests fix what it does: \<open>redConvertible{}\<close>, whose
  \<open>ToLiquid()\<close> method returns "red", converts to the string "red". A value with the
  method is replaced by what the method returns; any other value is returned as it is.
\<close>

fun ToLiquid :: "val \<Rightarrow> val" where
  "ToLiquid (VDrop v) = v"
| "ToLiquid v = v"

text \<open>
  The types \<open>reflect.Type\<close> ranges over in the model: \<open>bool\<close>, \<open>int\<close>,
  \<open>string\<close>, slices, \<open>interface{}\<close>, and the struct type of a drop. Floating
  point, maps, \<open>time.Time\<close> and \<open>Number\<close> are outside the model, and so are the
  branches of \<open>Convert\<close> that only those types reach.
\<close>

datatype rtype = TBool | TInt | TString | TSlice rtype | TInterface | TDrop

datatype Kind = KBool | KInt | KString | KSlice | KInterface | KStruct

fun kindOf :: "rtype \<Rightarrow> Kind" where
  "kindOf TBool = KBool"
| "kindOf TInt = KInt"
| "kindOf TString = KString"
| "kindOf (TSlice t) = KSlice"
| "kindOf TInterface = KInterface"
| "kindOf TDrop = KStruct"

fun Elem :: "rtype \<Rightarrow> rtype" where
  "Elem (TSlice t) = t"
| "Elem t = t"

text \<open>
  The dynamic type of a value that is not nil (\<open>rv.Type()\<close>): a slice value is a
  \<open>[]interface{}\<close>.
\<close>

fun typeOf :: "val \<Rightarrow> rtype option" where
  "typeOf VNil = None"
| "typeOf (VBool b) = Some TBool"
| "typeOf (VInt i) = Some TInt"
| "typeOf (VString s) = Some TString"
| "typeOf (VSlice xs) = Some (TSlice TInterface)"
| "typeOf (VDrop v) = Some TDrop"

text \<open>
  \<open>ConvertibleTo\<close> on these types, after the conversion rules of Go: identical types,
  every type to \<open>interface{}\<close>, and an integer to a string. On these pairs
  \<open>rv.Convert(typ)\<close> keeps the value, but for an integer to a string, which
  \<open>Convert\<close> never asks for.
\<close>

definition ConvertibleTo :: "rtype \<Rightarrow> rtype \<Rightarrow> bool" where
  "ConvertibleTo src dst = (src = dst \<or> dst = TInterface \<or> (src = TInt \<and> dst = TString))"

datatype TypeError = conversionError string val rtype

text \<open>\<open>strconv.ParseInt(s, 10, 64)\<close>: an optional sign, then decimal digits, within 64 bits.\<close>

definition isDigit :: "char \<Rightarrow> bool" where
  "isDigit c = (48 \<le> (of_char c :: nat) \<and> (of_char c :: nat) \<le> 57)"

definition digitsValue :: "string \<Rightarrow> int" where
  "digitsValue ds = foldl (\<lambda>acc c. acc * 10 + (int (of_char c) - 48)) 0 ds"

definition ParseInt :: "string \<Rightarrow> int option" where
  "ParseInt s =
     (let neg = (s \<noteq> [] \<and> hd s = CHR ''-'');
          ds = (if s \<noteq> [] \<and> (hd s = CHR ''-'' \<or> hd s = CHR ''+'') then tl s else s);
          v = (if neg then - digitsValue ds else digitsValue ds)
      in if ds = [] \<or> \<not> list_all isDigit ds then None
         else if v < - (2 ^ 63) \<or> 2 ^ 63 \<le> v then None
         else Some v)"

fun convertValueToInt :: "val \<Rightarrow> rtype \<Rightarrow> TypeError + int" where
  "convertValueToInt (VBool b) typ = Inr (if b then 1 else 0)"
| "convertValueToInt (VString s) typ =
     (case ParseInt s of
        None \<Rightarrow> Inl (conversionError [] (VString s) typ)
      | Some v \<Rightarrow> Inr v)"
| "convertValueToInt value typ = Inl (conversionError [] value typ)"

text \<open>\<open>fmt.Sprint\<close> of an integer; a drop prints as the empty struct that \<open>redConvertible\<close> is.\<close>

fun showNat :: "nat \<Rightarrow> string" where
  "showNat n = (if n < 10 then [char_of (48 + n)] else showNat (n div 10) @ [char_of (48 + n mod 10)])"

definition showInt :: "int \<Rightarrow> string" where
  "showInt i = (if i < 0 then CHR ''-'' # showNat (nat (- i)) else showNat (nat i))"

fun convertToString :: "val \<Rightarrow> string" where
  "convertToString (VSlice xs) = concat (map convertToString xs)"
| "convertToString VNil = ''<nil>''"
| "convertToString (VBool b) = (if b then ''true'' else ''false'')"
| "convertToString (VInt i) = showInt i"
| "convertToString (VString s) = s"
| "convertToString (VDrop v) = ''{}''"

text \<open>Collect the converted elements of a slice; the first error ends the loop.\<close>

fun collect :: "(TypeError + val) list \<Rightarrow> TypeError + val list" where
  "collect [] = Inr []"
| "collect (Inl e # rs) = Inl e"
| "collect (Inr v # rs) = (case collect rs of Inl e \<Rightarrow> Inl e | Inr vs \<Rightarrow> Inr (v # vs))"

function Convert :: "val \<Rightarrow> rtype \<Rightarrow> TypeError + val" where
  "Convert value0 typ =
     (let value = ToLiquid value0 in
      if kindOf typ \<noteq> KString \<and> value \<noteq> VNil
         \<and> (case typeOf value of None \<Rightarrow> False | Some t \<Rightarrow> ConvertibleTo t typ)
      then Inr value
      else case kindOf typ of
        KBool \<Rightarrow> Inr (VBool (\<not> (value = VNil \<or> value = VBool False)))
      | KInt \<Rightarrow>
          (case convertValueToInt value typ of Inl e \<Rightarrow> Inl e | Inr v \<Rightarrow> Inr (VInt v))
      | KSlice \<Rightarrow>
          (case value of
             VSlice xs \<Rightarrow>
               (case collect (map (\<lambda>x. Convert x (Elem typ)) xs) of
                  Inl e \<Rightarrow> Inl e
                | Inr vs \<Rightarrow> Inr (VSlice vs))
           | _ \<Rightarrow> Inl (conversionError [] value typ))
      | KString \<Rightarrow> Inr (VString (convertToString value))
      | _ \<Rightarrow> Inl (conversionError [] value typ))"
  by pat_completeness auto
termination
proof (relation "measure (\<lambda>(v, t). size v)", goal_cases)
  case 1
  show ?case
    by simp
next
  case (2 value0 ty v xs x)
  have "ToLiquid value0 = VSlice xs"
    using 2 by simp
  moreover have "x \<in> set xs"
    using 2 by simp
  then have "size x < size (VSlice xs)"
    by (simp add: less_Suc_eq_le size_list_estimation')
  moreover have "size (ToLiquid value0) \<le> size value0"
    by (cases value0) simp_all
  ultimately show ?case
    by simp
qed

declare Convert.simps [simp del]

text \<open>The current block and the blocks saved on the stack are allocated.\<close>

definition allocated :: "nat \<Rightarrow> addr option \<Rightarrow> bool" where
  "allocated n b = (case b of None \<Rightarrow> True | Some a \<Rightarrow> a < n)"

definition nodesInv :: "('s, 'e) pstate \<Rightarrow> bool" where
  "nodesInv s =
     (allocated (length (blocks s)) (bn s)
      \<and> list_all (\<lambda>f. allocated (length (blocks s)) (f_node f)) (stack s))"

section \<open>Facts about quoting\<close>

lemma wordChar_plainChar: "wordChar c \<Longrightarrow> plainChar c"
  by (auto simp: wordChar_def plainChar_def Let_def)

lemma DecodeRune_ascii: "b0 < 0x80 \<Longrightarrow> DecodeRune (b0 # bs) = (b0, 1)"
  by simp

lemma escapedRune_plainChar: "plainChar c \<Longrightarrow> escapedRune tbl (of_char c) = [c]"
  by (simp add: plainChar_def escapedRune_def IsPrint_def EncodeRune_def Let_def)

lemma quoteFrom_step_plainChar:
  assumes "plainChar c"
  shows "quoteFrom tbl (c # cs) = c # quoteFrom tbl cs"
proof -
  have lt: "(of_char c :: nat) < 0x80"
    using assms by (simp add: plainChar_def Let_def)
  have ne: "(of_char c :: nat) \<noteq> RuneError"
    using lt by (simp add: RuneError_def)
  show ?thesis
    using ne escapedRune_plainChar [OF assms, of tbl]
    by (simp add: DecodeRune_ascii [OF lt] del: DecodeRune.simps)
qed

lemma quoteFrom_step_quote:
  "quoteFrom tbl (CHR 0x22 # cs) = CHR 0x5C # CHR 0x22 # quoteFrom tbl cs"
proof -
  have "char_of (of_char (CHR 0x22) :: nat) = CHR 0x22"
    by (rule char_of_char)
  then have c: "char_of (0x22 :: nat) = CHR 0x22"
    by simp
  have e: "escapedRune tbl 0x22 = [CHR 0x5C, CHR 0x22]"
    using c by (simp add: escapedRune_def)
  show ?thesis
    using e by (simp add: RuneError_def)
qed

lemma quoteFrom_plain: "list_all plainChar s \<Longrightarrow> quoteFrom tbl s = s"
  by (induction s) (simp_all add: quoteFrom_step_plainChar del: quoteFrom.simps(2))

lemma Quote_plain: "list_all plainChar s \<Longrightarrow> Quote tbl s = CHR 0x22 # s @ [CHR 0x22]"
  by (simp add: Quote_def quoteFrom_plain)

lemma isWord_plain: "isWord s \<Longrightarrow> list_all plainChar s"
  by (simp add: isWord_def list_all_iff wordChar_plainChar)

lemma Quote_word: "isWord s \<Longrightarrow> Quote tbl s = CHR 0x22 # s @ [CHR 0x22]"
  by (simp add: Quote_plain isWord_plain)

lemma sublist_Quote_plain: "list_all plainChar s \<Longrightarrow> sublist s (pre @ Quote tbl s @ post)"
proof -
  assume "list_all plainChar s"
  then have "pre @ Quote tbl s @ post = (pre @ [CHR 0x22]) @ s @ (CHR 0x22 # post)"
    by (simp add: Quote_plain)
  then show ?thesis
    by (metis sublist_appendI)
qed

lemma sublist_Quote_word: "isWord s \<Longrightarrow> sublist s (pre @ Quote tbl s @ post)"
  by (simp add: sublist_Quote_plain isWord_plain)

text \<open>
  Beyond ASCII: a no-break space (U+00A0), which is not printable, is written as the
  escape of its code point, and a byte that starts no UTF-8 sequence as the escape of
  the byte, whatever the table.
\<close>

lemma Quote_no_break_space:
  "Quote tbl [CHR 0xC2, CHR 0xA0] =
     [CHR 0x22, CHR 0x5C, CHR ''u'', CHR ''0'', CHR ''0'', CHR ''a'', CHR ''0'', CHR 0x22]"
  by (simp add: Quote_def RuneError_def isCont_def escapedRune_def IsPrint_def hexDigit_def)

lemma Quote_invalid_byte:
  "Quote tbl [CHR 0xFF] = [CHR 0x22, CHR 0x5C, CHR ''x'', CHR ''f'', CHR ''f'', CHR 0x22]"
  by (simp add: Quote_def RuneError_def hexDigit_def)

section \<open>Undefined variables and filters\<close>

text \<open>
  C9. The configuration built by \<open>NewConfig\<close> is asymmetric: undefined filters are
  handled strictly, undefined variables laxly. With this configuration a variable that
  the bindings do not hold evaluates to nil, and looking up any filter name panics with
  the undefined-filter error (no filter is registered yet).
\<close>

theorem NewConfig_asymmetric:
  "FilterErrorMode (NewConfig :: 'f Config) = StrictMode
   \<and> VariableErrorMode (NewConfig :: 'f Config) = LaxMode
   \<and> (bindings name = None \<longrightarrow> GetVariable (NewConfig :: 'f Config) bindings name = Inr VNil)
   \<and> GetFilter (NewConfig :: 'f Config) fname = Inl (UndefinedFilter fname)"
  by (simp add: NewConfig_def GetVariable_def GetFilter_def)

theorem NewConfig_asymmetric_witness:
  "[''x'' \<mapsto> VInt 1] ''y'' = None
   \<and> GetVariable (NewConfig :: unit Config) [''x'' \<mapsto> VInt 1] ''y'' = Inr VNil
   \<and> GetFilter (NewConfig :: unit Config) ''upcase'' = Inl (UndefinedFilter ''upcase'')"
  using NewConfig_asymmetric [where 'f = unit, of "[''x'' \<mapsto> VInt 1]" "''y''" "''upcase''"]
  by simp

text \<open>
  C5 (amended). A variable name that the bindings do not hold: under strict mode the
  lookup fails with the undefined-variable error, whose message is "undefined variable"
  followed by the name in Go's quoted form. The name itself is part of the message
  whenever it is made of printable ASCII characters other than the double quote and the
  backslash. Under lax mode the lookup succeeds and gives nil.
\<close>

theorem GetVariable_unbound:
  assumes "bindings name = None"
  shows "(VariableErrorMode c = StrictMode \<longrightarrow>
            GetVariable c bindings name = Inl (UndefinedVariable name)
            \<and> sublist ''undefined variable'' (UndefinedVariable_Error tbl name)
            \<and> sublist (Quote tbl name) (UndefinedVariable_Error tbl name)
            \<and> (list_all plainChar name \<longrightarrow> sublist name (UndefinedVariable_Error tbl name)))
       \<and> (VariableErrorMode c = LaxMode \<longrightarrow> GetVariable c bindings name = Inr VNil)"
proof -
  have msg: "UndefinedVariable_Error tbl name = ''undefined variable'' @ '' '' @ Quote tbl name"
    by (simp add: UndefinedVariable_Error_def)
  have m1: "sublist ''undefined variable'' (UndefinedVariable_Error tbl name)"
    unfolding msg by (rule sublist_append_rightI)
  have m2: "sublist (Quote tbl name) (UndefinedVariable_Error tbl name)"
    unfolding UndefinedVariable_Error_def by (rule sublist_append_leftI)
  have m3: "list_all plainChar name \<Longrightarrow> sublist name (UndefinedVariable_Error tbl name)"
    using sublist_Quote_plain [of name "''undefined variable ''" tbl "[]"]
    by (simp add: UndefinedVariable_Error_def)
  show ?thesis
    using assms m1 m2 m3 by (simp add: GetVariable_def)
qed

theorem GetVariable_unbound_witness:
  "list_all plainChar ''page-title?''
   \<and> GetVariable (\<lparr> filters = Map.empty, FilterErrorMode = StrictMode, VariableErrorMode = StrictMode \<rparr> :: unit Config)
        Map.empty ''page-title?'' = Inl (UndefinedVariable ''page-title?'')
   \<and> sublist ''page-title?'' (UndefinedVariable_Error emptyTable ''page-title?'')
   \<and> GetVariable (\<lparr> filters = Map.empty, FilterErrorMode = StrictMode, VariableErrorMode = LaxMode \<rparr> :: unit Config)
        Map.empty ''page-title?'' = Inr VNil"
proof -
  have w: "list_all plainChar ''page-title?''"
    by (simp add: plainChar_def)
  show ?thesis
    using w GetVariable_unbound [where bindings = "Map.empty" and name = "''page-title?''"
        and tbl = emptyTable
        and c = "\<lparr> filters = Map.empty, FilterErrorMode = StrictMode, VariableErrorMode = StrictMode \<rparr> :: unit Config"]
      GetVariable_unbound [where bindings = "Map.empty" and name = "''page-title?''"
        and tbl = emptyTable
        and c = "\<lparr> filters = Map.empty, FilterErrorMode = StrictMode, VariableErrorMode = LaxMode \<rparr> :: unit Config"]
    by simp
qed

text \<open>
  A name with a double quote in it: the message holds the name with the quote
  backslashed, and not the name as it is.
\<close>

theorem GetVariable_unbound_counterexample:
  "GetVariable (\<lparr> filters = Map.empty, FilterErrorMode = StrictMode, VariableErrorMode = StrictMode \<rparr> :: unit Config)
        Map.empty [CHR ''a'', CHR 0x22, CHR ''b''] = Inl (UndefinedVariable [CHR ''a'', CHR 0x22, CHR ''b''])
   \<and> UndefinedVariable_Error emptyTable [CHR ''a'', CHR 0x22, CHR ''b'']
        = ''undefined variable '' @ [CHR 0x22, CHR ''a'', CHR 0x5C, CHR 0x22, CHR ''b'', CHR 0x22]
   \<and> \<not> sublist [CHR ''a'', CHR 0x22, CHR ''b'']
          (''undefined variable '' @ [CHR 0x22, CHR ''a'', CHR 0x5C, CHR 0x22, CHR ''b'', CHR 0x22])"
proof -
  have n: "\<not> sublist [CHR ''a'', CHR 0x22, CHR ''b'']
          (''undefined variable '' @ [CHR 0x22, CHR ''a'', CHR 0x5C, CHR 0x22, CHR ''b'', CHR 0x22])"
    by (simp add: sublist_Cons_right)
  have pa: "plainChar CHR ''a''" and pb: "plainChar CHR ''b''"
    by (simp_all add: plainChar_def)
  have "quoteFrom emptyTable [CHR ''a'', CHR 0x22, CHR ''b''] = [CHR ''a'', CHR 0x5C, CHR 0x22, CHR ''b'']"
    by (simp add: quoteFrom_step_plainChar [OF pa] quoteFrom_step_plainChar [OF pb]
        quoteFrom_step_quote del: quoteFrom.simps(2))
  then have m: "UndefinedVariable_Error emptyTable [CHR ''a'', CHR 0x22, CHR ''b'']
        = ''undefined variable '' @ [CHR 0x22, CHR ''a'', CHR 0x5C, CHR 0x22, CHR ''b'', CHR 0x22]"
    by (simp add: UndefinedVariable_Error_def Quote_def)
  show ?thesis
    using n m by (simp add: GetVariable_def)
qed

text \<open>
  C6. A filter name that the registry does not hold: under strict mode the lookup fails
  (it panics with the undefined-filter error); under lax mode the lookup gives the
  identity function, which returns the piped value unchanged.
\<close>

theorem GetFilter_unregistered:
  assumes "filters c name = None"
  shows "(FilterErrorMode c = StrictMode \<longrightarrow> GetFilter c name = Inl (UndefinedFilter name))
       \<and> (FilterErrorMode c = LaxMode \<longrightarrow>
            GetFilter c name = Inr (Func1 identityFilter) \<and> identityFilter v = v)"
  using assms by (simp add: GetFilter_def identityFilter_def)

theorem GetFilter_unregistered_witness:
  "GetFilter (\<lparr> filters = Map.empty, FilterErrorMode = StrictMode, VariableErrorMode = LaxMode \<rparr> :: unit Config)
      ''undefined_filter'' = Inl (UndefinedFilter ''undefined_filter'')
   \<and> GetFilter (\<lparr> filters = Map.empty, FilterErrorMode = LaxMode, VariableErrorMode = LaxMode \<rparr> :: unit Config)
      ''undefined_filter'' = Inr (Func1 identityFilter)
   \<and> identityFilter (VString ''a'') = VString ''a''"
  using GetFilter_unregistered [of "\<lparr> filters = Map.empty, FilterErrorMode = StrictMode, VariableErrorMode = LaxMode \<rparr> :: unit Config" "''undefined_filter''" "VString ''a''"]
    GetFilter_unregistered [of "\<lparr> filters = Map.empty, FilterErrorMode = LaxMode, VariableErrorMode = LaxMode \<rparr> :: unit Config" "''undefined_filter''" "VString ''a''"]
  by simp

section \<open>The scanner\<close>

lemmas scan_defs =
  Scan_def delimsOf_def defaultDelims_def testDelims_def scanFrom.simps opensAt_def
  textTokens_def objectTokenOf_def tagTokenOf_def advance_def leftTrim_def rightTrim_def
  stripTrim_def trimSpace_def isSpace_def Let_def

text \<open>
  C7. With the default delimiters, the source of one tag scans to exactly one token, a
  tag with the name "tag" and the arguments "arg"; the source of one object scans to
  exactly one token, an object with the arguments "expr" and no name. The interior is
  trimmed of white space.
\<close>

theorem Scan_single_construct:
  "Scan ''{% tag arg %}'' loc [] =
     [\<lparr> Type = TagTokenType, SourceLoc = loc, Name = ''tag'', Args = ''arg'',
         Source = ''{% tag arg %}'', TrimLeft = False, TrimRight = False \<rparr>]
   \<and> Scan ''{{ expr }}'' loc [] =
     [\<lparr> Type = ObjTokenType, SourceLoc = loc, Name = [], Args = ''expr'',
         Source = ''{{ expr }}'', TrimLeft = False, TrimRight = False \<rparr>]"
  by (simp add: scan_defs)

lemma opensAt_absent: "\<not> sublist left src \<Longrightarrow> opensAt left right src = None"
  by (auto simp: opensAt_def)

lemma scanFrom_no_left_marker:
  "\<not> sublist oL src \<Longrightarrow> \<not> sublist tL src
   \<Longrightarrow> scanFrom [oL, oR, tL, tR] loc pend src = textTokens loc (pend @ src)"
proof (induction src arbitrary: pend)
  case Nil
  then show ?case
    by (subst scanFrom.simps) simp
next
  case (Cons c cs)
  have o: "opensAt oL oR (c # cs) = None" and t: "opensAt tL tR (c # cs) = None"
    using Cons.prems by (simp_all add: opensAt_absent)
  have "\<not> sublist oL cs" and "\<not> sublist tL cs"
    using Cons.prems by (simp_all add: sublist_Cons_right)
  then have "scanFrom [oL, oR, tL, tR] loc (pend @ [c]) cs = textTokens loc ((pend @ [c]) @ cs)"
    by (rule Cons.IH)
  then show ?case
    using o t by (subst scanFrom.simps) simp
qed

text \<open>
  C8. With the four delimiters of the scanner tests, the source of one object in these
  delimiters scans to exactly one object token with the arguments "expr". The default
  markers are then text: a source in which neither left marker of the delimiters in
  force occurs scans to one Text token that holds it all, whatever else it contains.
\<close>

theorem Scan_custom_delimiters:
  "Scan ''OBJECT@LEFT expr OBJECT#RIGHT'' loc testDelims =
     [\<lparr> Type = ObjTokenType, SourceLoc = loc, Name = [], Args = ''expr'',
         Source = ''OBJECT@LEFT expr OBJECT#RIGHT'', TrimLeft = False, TrimRight = False \<rparr>]
   \<and> Scan ''{{ expr }}{% tag arg %}'' loc testDelims =
     [\<lparr> Type = TextTokenType, SourceLoc = loc, Name = [], Args = [],
         Source = ''{{ expr }}{% tag arg %}'', TrimLeft = False, TrimRight = False \<rparr>]
   \<and> (src \<noteq> [] \<and> \<not> sublist oL src \<and> \<not> sublist tL src \<longrightarrow>
        Scan src loc [oL, oR, tL, tR] =
          [\<lparr> Type = TextTokenType, SourceLoc = loc, Name = [], Args = [],
              Source = src, TrimLeft = False, TrimRight = False \<rparr>])"
proof -
  have a: "Scan ''OBJECT@LEFT expr OBJECT#RIGHT'' loc testDelims =
     [\<lparr> Type = ObjTokenType, SourceLoc = loc, Name = [], Args = ''expr'',
         Source = ''OBJECT@LEFT expr OBJECT#RIGHT'', TrimLeft = False, TrimRight = False \<rparr>]"
    by (simp add: scan_defs)
  have g: "src \<noteq> [] \<Longrightarrow> \<not> sublist oL src \<Longrightarrow> \<not> sublist tL src \<Longrightarrow>
        Scan src loc [oL, oR, tL, tR] =
          [\<lparr> Type = TextTokenType, SourceLoc = loc, Name = [], Args = [],
              Source = src, TrimLeft = False, TrimRight = False \<rparr>]"
    for src oL oR tL tR
    by (simp add: Scan_def delimsOf_def scanFrom_no_left_marker textTokens_def)
  have n: "\<not> sublist ''OBJECT@LEFT'' ''{{ expr }}{% tag arg %}''"
    "\<not> sublist ''TAG*LEFT'' ''{{ expr }}{% tag arg %}''"
    by code_simp+
  have b: "Scan ''{{ expr }}{% tag arg %}'' loc testDelims =
     [\<lparr> Type = TextTokenType, SourceLoc = loc, Name = [], Args = [],
         Source = ''{{ expr }}{% tag arg %}'', TrimLeft = False, TrimRight = False \<rparr>]"
    unfolding testDelims_def using n by (intro g) simp_all
  show ?thesis
    using a b g by blast
qed

theorem Scan_custom_delimiters_witness:
  "''{% if x %}'' \<noteq> [] \<and> \<not> sublist ''OBJECT@LEFT'' ''{% if x %}'' \<and> \<not> sublist ''TAG*LEFT'' ''{% if x %}''
   \<and> Scan ''{% if x %}'' \<lparr> Pathname = [], LineNo = 1 \<rparr> [''OBJECT@LEFT'', ''OBJECT#RIGHT'', ''TAG*LEFT'', ''TAG!RIGHT''] =
     [\<lparr> Type = TextTokenType, SourceLoc = \<lparr> Pathname = [], LineNo = 1 \<rparr>, Name = [], Args = [],
         Source = ''{% if x %}'', TrimLeft = False, TrimRight = False \<rparr>]"
proof -
  have n: "\<not> sublist ''OBJECT@LEFT'' ''{% if x %}''" "\<not> sublist ''TAG*LEFT'' ''{% if x %}''"
    by code_simp+
  show ?thesis
    using n Scan_custom_delimiters [of "\<lparr> Pathname = [], LineNo = 1 \<rparr>" "''{% if x %}''"
        "''OBJECT@LEFT''" "''TAG*LEFT''" "''OBJECT#RIGHT''" "''TAG!RIGHT''"]
    by simp
qed

section \<open>The structural parser\<close>

lemmas example_defs =
  standardGrammar_def compilerTestGrammar_def grammarOf_def blockDefs_def blockStart_def
  blockEnd_def blockClause_def tagToken_def textToken_def objToken_def keepSource_def

lemmas parser_defs =
  parseTokens_def parseToken_def finish_def initState_def appendAt_def pushBlock_def
  addClause_def popBlock_def notInsideMessage_def unterminatedMessage_def Let_def

lemma parseLoop_append:
  "parseLoop g pe (xs @ ys) s =
     (case parseLoop g pe xs s of Inl e \<Rightarrow> Inl e | Inr s' \<Rightarrow> parseLoop g pe ys s')"
  by (induction xs arbitrary: s) (auto split: sum.splits)

lemma parseLoop_in_comment:
  "inComment s \<Longrightarrow> \<forall>t\<in>set mid. \<not> (Type t = TagTokenType \<and> Name t = ''endcomment'')
   \<Longrightarrow> parseLoop g pe mid s = Inr s"
  by (induction mid) (auto simp: parseToken_def)

lemma parseLoop_in_raw:
  "\<not> inComment s \<Longrightarrow> inRaw s \<Longrightarrow> rawTag s = Some r
   \<Longrightarrow> \<forall>t\<in>set mid. \<not> (Type t = TagTokenType \<and> Name t = ''endraw'')
   \<Longrightarrow> parseLoop g pe mid s = Inr (s\<lparr>raws := (raws s)[r := raws s ! r @ map Source mid]\<rparr>)"
proof (induction mid arbitrary: s)
  case Nil
  then show ?case by simp
next
  case (Cons t mid)
  let ?s' = "s\<lparr>raws := (raws s)[r := raws s ! r @ [Source t]]\<rparr>"
  have step: "parseToken g pe t s = Inr ?s'"
    using Cons.prems by (auto simp: parseToken_def)
  have "parseLoop g pe mid ?s' = Inr (?s'\<lparr>raws := (raws ?s')[r := raws ?s' ! r @ map Source mid]\<rparr>)"
    using Cons.prems by (intro Cons.IH) auto
  moreover have "(raws ?s')[r := raws ?s' ! r @ map Source mid] = (raws s)[r := raws s ! r @ map Source (t # mid)]"
    by (cases "r < length (raws s)") (simp_all add: list_update_beyond not_less)
  ultimately show ?case
    using step by simp
qed

lemma appendAt_fields [simp]:
  "raws (appendAt n s) = raws s" "rawTag (appendAt n s) = rawTag s"
  "inRaw (appendAt n s) = inRaw s" "inComment (appendAt n s) = inComment s"
  "sd (appendAt n s) = sd s" "bn (appendAt n s) = bn s" "stack (appendAt n s) = stack s"
  "ap (appendAt n s) = ap s"
  by (simp_all add: appendAt_def split: appendPoint.splits)

lemma appendAt_raws_update:
  "appendAt n (s\<lparr>raws := r\<rparr>) = (appendAt n s)\<lparr>raws := r\<rparr>"
  "appendAt n (s\<lparr>rawTag := t\<rparr>) = (appendAt n s)\<lparr>rawTag := t\<rparr>"
  "appendAt n (s\<lparr>inRaw := b\<rparr>) = (appendAt n s)\<lparr>inRaw := b\<rparr>"
  by (simp_all add: appendAt_def split: appendPoint.splits)

text \<open>
  C1 (amended). Let the parser be outside every comment and raw region. If the grammar
  registers \<open>comment\<close>, then a comment tag, any tokens none of which is an endcomment
  tag, and the endcomment tag leave the state of the parser as it was: nothing is added
  to the tree. If the grammar registers \<open>raw\<close>, then a raw tag, any tokens none of
  which is an endraw tag, and the endraw tag add exactly one Raw node at the insertion
  point, whose slices are the sources of the tokens in between, in order; none of them
  is read as a tag or an object.
\<close>

theorem comment_and_raw_regions:
  assumes normal: "\<not> inComment s \<and> \<not> inRaw s"
    and opn: "Type opn = TagTokenType"
    and cls: "Type cls = TagTokenType"
    and mid: "\<forall>t\<in>set mid. \<not> (Type t = TagTokenType \<and> Name t = Name cls)"
  shows "(BlockSyntax g ''comment'' \<noteq> None \<and> Name opn = ''comment'' \<and> Name cls = ''endcomment''
            \<longrightarrow> parseLoop g pe (opn # mid @ [cls]) s = Inr s)
       \<and> (BlockSyntax g ''raw'' \<noteq> None \<and> Name opn = ''raw'' \<and> Name cls = ''endraw''
            \<longrightarrow> parseLoop g pe (opn # mid @ [cls]) s =
                 Inr (appendAt (ASTRaw (length (raws s)))
                        (s\<lparr>rawTag := Some (length (raws s)), raws := raws s @ [map Source mid]\<rparr>)))"
proof (intro conjI impI)
  assume a: "BlockSyntax g ''comment'' \<noteq> None \<and> Name opn = ''comment'' \<and> Name cls = ''endcomment''"
  let ?s1 = "s\<lparr>inComment := True\<rparr>"
  have s1: "parseToken g pe opn s = Inr ?s1"
    using normal opn a by (auto simp: parseToken_def)
  have s2: "parseLoop g pe mid ?s1 = Inr ?s1"
    using mid a by (intro parseLoop_in_comment) auto
  have s3: "parseToken g pe cls ?s1 = Inr s"
    using normal cls a by (simp add: parseToken_def)
  show "parseLoop g pe (opn # mid @ [cls]) s = Inr s"
    using s1 s2 s3 by (simp add: parseLoop_append)
next
  assume a: "BlockSyntax g ''raw'' \<noteq> None \<and> Name opn = ''raw'' \<and> Name cls = ''endraw''"
  let ?n = "length (raws s)"
  let ?s1 = "appendAt (ASTRaw ?n) (s\<lparr>inRaw := True, rawTag := Some ?n, raws := raws s @ [[]]\<rparr>)"
  let ?s2 = "?s1\<lparr>raws := (raws ?s1)[?n := raws ?s1 ! ?n @ map Source mid]\<rparr>"
  have s1: "parseToken g pe opn s = Inr ?s1"
    using normal opn a by (auto simp: parseToken_def)
  have s2: "parseLoop g pe mid ?s1 = Inr ?s2"
    using mid a normal by (intro parseLoop_in_raw) auto
  have s3: "parseToken g pe cls ?s2 = Inr (?s2\<lparr>inRaw := False\<rparr>)"
    using normal cls a by (simp add: parseToken_def)
  have eq: "?s2\<lparr>inRaw := False\<rparr> =
      appendAt (ASTRaw ?n) (s\<lparr>rawTag := Some ?n, raws := raws s @ [map Source mid]\<rparr>)"
    using normal by (simp add: appendAt_raws_update)
  show "parseLoop g pe (opn # mid @ [cls]) s =
      Inr (appendAt (ASTRaw ?n) (s\<lparr>rawTag := Some ?n, raws := raws s @ [map Source mid]\<rparr>))"
    using s1 s2 s3 eq by (simp add: parseLoop_append)
qed

theorem comment_and_raw_regions_witness:
  "parseLoop standardGrammar keepSource
     [tagToken ''comment'' [] ''{% comment %}'', tagToken ''if'' ''x'' ''{% if x %}'',
      objToken ''y'' ''{{ y }}'', tagToken ''endcomment'' [] ''{% endcomment %}''] initState
     = Inr initState
   \<and> parseLoop standardGrammar keepSource
     [tagToken ''raw'' [] ''{% raw %}'', tagToken ''if'' ''x'' ''{% if x %}'',
      objToken ''y'' ''{{ y }}'', tagToken ''endraw'' [] ''{% endraw %}''] initState
     = Inr (initState\<lparr> Children := [ASTRaw 0], raws := [[''{% if x %}'', ''{{ y }}'']],
                          rawTag := Some 0 \<rparr>)"
  using comment_and_raw_regions [of initState "tagToken ''comment'' [] ''{% comment %}''"
      "tagToken ''endcomment'' [] ''{% endcomment %}''"
      "[tagToken ''if'' ''x'' ''{% if x %}'', objToken ''y'' ''{{ y }}'']" standardGrammar keepSource]
    comment_and_raw_regions [of initState "tagToken ''raw'' [] ''{% raw %}''"
      "tagToken ''endraw'' [] ''{% endraw %}''"
      "[tagToken ''if'' ''x'' ''{% if x %}'', objToken ''y'' ''{{ y }}'']" standardGrammar keepSource]
  by (simp add: initState_def appendAt_def example_defs)

text \<open>
  A raw region inside a comment region adds no Raw node; and with a grammar that does not
  register comment, the comment tags and the text between them become nodes.
\<close>

theorem comment_and_raw_regions_counterexample:
  "parseTokens emptyTable standardGrammar keepSource
     [tagToken ''comment'' [] ''{% comment %}'', tagToken ''raw'' [] ''{% raw %}'',
      textToken ''a'', tagToken ''endraw'' [] ''{% endraw %}'',
      tagToken ''endcomment'' [] ''{% endcomment %}'']
     = Inr \<lparr> seqChildren = [], seqBlocks = [], seqRaws = [] \<rparr>
   \<and> parseTokens emptyTable compilerTestGrammar keepSource
     [tagToken ''comment'' [] ''{% comment %}'', textToken ''a'',
      tagToken ''endcomment'' [] ''{% endcomment %}'']
     = Inr \<lparr> seqChildren = [ASTTag (tagToken ''comment'' [] ''{% comment %}''), ASTText (textToken ''a''),
                              ASTTag (tagToken ''endcomment'' [] ''{% endcomment %}'')],
             seqBlocks = [], seqRaws = [] \<rparr>"
  by (simp add: parser_defs example_defs)

lemma stackInv_init: "stackInv initState"
  by (simp add: stackInv_def initState_def)

lemma stackInv_appendAt [simp]: "stackInv (appendAt n s) = stackInv s"
  by (simp add: stackInv_def)

lemma stackInv_parseToken:
  assumes "parseToken g pe tok s = Inr s'" and "stackInv s"
  shows "stackInv s'"
proof -
  have push: "\<And>cs. stackInv (pushBlock tok cs s)"
    using assms(2) by (simp add: pushBlock_def stackInv_def Let_def)
  have clause: "\<And>cs. addClause tok cs s = Inr s' \<Longrightarrow> stackInv s'"
    using assms(2) by (auto simp: addClause_def stackInv_def Let_def split: option.splits)
  have pop: "popBlock s = Inr s' \<Longrightarrow> stackInv s'"
  proof -
    assume p: "popBlock s = Inr s'"
    then have ne: "stack s \<noteq> []"
      by (auto simp: popBlock_def split: if_splits)
    then obtain fs f where st: "stack s = fs @ [f]"
      by (metis append_butlast_last_id)
    have "openChain (f_node f) (rev fs)"
      using assms(2) by (simp add: stackInv_def st)
    then show ?thesis
      using p by (auto simp: popBlock_def stackInv_def Let_def st)
  qed
  show ?thesis
    using assms push clause pop
    by (auto simp: parseToken_def stackInv_def split: if_splits option.splits sum.splits TokenType.splits)
qed

lemma stackInv_parseLoop:
  "parseLoop g pe toks s = Inr s' \<Longrightarrow> stackInv s \<Longrightarrow> stackInv s'"
  by (induction toks arbitrary: s) (auto split: sum.splits dest: stackInv_parseToken)

lemma stackInv_bn: "stackInv s \<Longrightarrow> (bn s = None) = (stack s = [])"
  by (cases "rev (stack s)") (auto simp: stackInv_def)

lemma allocated_mono: "allocated n b \<Longrightarrow> n \<le> m \<Longrightarrow> allocated m b"
  by (auto simp: allocated_def split: option.splits)

lemma length_blocks_appendAt [simp]: "length (blocks (appendAt n s)) = length (blocks s)"
  by (simp add: appendAt_def split: appendPoint.splits)

lemma nodesInv_init: "nodesInv initState"
  by (simp add: nodesInv_def initState_def allocated_def)

lemma nodesInv_appendAt [simp]: "nodesInv (appendAt n s) = nodesInv s"
  by (simp add: nodesInv_def)

lemma nodesInv_parseToken:
  assumes "parseToken g pe tok s = Inr s'" and "nodesInv s"
  shows "nodesInv s'"
proof -
  have mono: "list_all (\<lambda>f. allocated (Suc (length (blocks s))) (f_node f)) (stack s)"
    using assms(2) by (auto simp: nodesInv_def list_all_iff intro: allocated_mono)
  have bn1: "allocated (Suc (length (blocks s))) (bn s)"
    using assms(2) by (auto simp: nodesInv_def intro: allocated_mono)
  have push: "\<And>cs. nodesInv (pushBlock tok cs s)"
    using mono bn1 by (simp add: pushBlock_def nodesInv_def Let_def allocated_def)
  have clause: "\<And>cs. addClause tok cs s = Inr s' \<Longrightarrow> nodesInv s'"
    using mono bn1 by (auto simp: addClause_def nodesInv_def Let_def split: option.splits)
  have pop: "popBlock s = Inr s' \<Longrightarrow> nodesInv s'"
  proof -
    assume p: "popBlock s = Inr s'"
    then have ne: "stack s \<noteq> []"
      by (auto simp: popBlock_def split: if_splits)
    then obtain fs f where st: "stack s = fs @ [f]"
      by (metis append_butlast_last_id)
    show ?thesis
      using p assms(2) by (auto simp: popBlock_def nodesInv_def Let_def st)
  qed
  show ?thesis
    using assms push clause pop
    by (auto simp: parseToken_def nodesInv_def split: if_splits option.splits sum.splits TokenType.splits)
qed

lemma nodesInv_parseLoop:
  "parseLoop g pe toks s = Inr s' \<Longrightarrow> nodesInv s \<Longrightarrow> nodesInv s'"
  by (induction toks arbitrary: s) (auto split: sum.splits dest: nodesInv_parseToken)

lemma nodesInv_bn: "nodesInv s \<Longrightarrow> bn s = Some b \<Longrightarrow> b < length (blocks s)"
  by (simp add: nodesInv_def allocated_def)

text \<open>
  C2. When the loop reaches the end of the tokens with a block still open (the stack or
  the current block is not empty), \<open>parseTokens\<close> returns an error and no root: the
  error is located at the current block, an allocated block, and its message is
  "unterminated", the quoted name of the block's tag, "block"; a name made of word
  characters appears verbatim.
\<close>

theorem unterminated_block:
  assumes run: "parseLoop g pe tokens initState = Inr s"
    and opn: "stack s \<noteq> [] \<or> bn s \<noteq> None"
  shows "\<exists>b msg. bn s = Some b \<and> b < length (blocks s)
           \<and> parseTokens tbl g pe tokens = Inl (Errorf (Token (blocks s ! b)) msg)
           \<and> msg = ''unterminated '' @ Quote tbl (Name (Token (blocks s ! b))) @ '' block''
           \<and> sublist ''unterminated'' msg
           \<and> (isWord (Name (Token (blocks s ! b))) \<longrightarrow> sublist (Name (Token (blocks s ! b))) msg)"
proof -
  have "stackInv s"
    using run stackInv_init by (rule stackInv_parseLoop)
  then have "bn s \<noteq> None"
    using opn stackInv_bn by blast
  then obtain b where b: "bn s = Some b"
    by blast
  have "nodesInv s"
    using run nodesInv_init by (rule nodesInv_parseLoop)
  then have lt: "b < length (blocks s)"
    using b by (rule nodesInv_bn)
  let ?name = "Name (Token (blocks s ! b))"
  let ?msg = "''unterminated '' @ Quote tbl ?name @ '' block''"
  have res: "parseTokens tbl g pe tokens = Inl (Errorf (Token (blocks s ! b)) ?msg)"
    using run b by (simp add: parseTokens_def finish_def unterminatedMessage_def)
  have "?msg = ''unterminated'' @ ('' '' @ Quote tbl ?name @ '' block'')"
    by simp
  then have m1: "sublist ''unterminated'' ?msg"
    by (metis sublist_append_rightI)
  have m2: "isWord ?name \<longrightarrow> sublist ?name ?msg"
    using sublist_Quote_word [of ?name "''unterminated ''" tbl "'' block''"] by simp
  show ?thesis
    using b lt res m1 m2 by blast
qed

theorem unterminated_block_witness:
  "parseLoop standardGrammar keepSource [tagToken ''if'' ''x'' ''{% if x %}''] initState
     = Inr (pushBlock (tagToken ''if'' ''x'' ''{% if x %}'') (blockStart ''if'') initState)
   \<and> bn (pushBlock (tagToken ''if'' ''x'' ''{% if x %}'') (blockStart ''if'') initState
          :: (blockSyntax, string) pstate) \<noteq> None
   \<and> isWord ''if''
   \<and> parseTokens emptyTable standardGrammar keepSource [tagToken ''if'' ''x'' ''{% if x %}'']
     = Inl (Errorf (tagToken ''if'' ''x'' ''{% if x %}'') (''unterminated '' @ Quote emptyTable ''if'' @ '' block''))
   \<and> sublist ''if'' (''unterminated '' @ Quote emptyTable ''if'' @ '' block'')
   \<and> Quote emptyTable ''if'' = [CHR 0x22, CHR ''i'', CHR ''f'', CHR 0x22]"
proof -
  let ?tok = "tagToken ''if'' ''x'' ''{% if x %}''"
  let ?s = "pushBlock ?tok (blockStart ''if'') initState :: (blockSyntax, string) pstate"
  have run: "parseLoop standardGrammar keepSource [?tok] initState = Inr ?s"
    by (simp add: parseToken_def initState_def example_defs)
  have opn: "stack ?s \<noteq> [] \<or> bn ?s \<noteq> None"
    by (simp add: pushBlock_def Let_def)
  have nm: "Name (Token (blocks ?s ! 0)) = ''if''" "Token (blocks ?s ! 0) = ?tok" "bn ?s = Some 0"
    by (simp_all add: pushBlock_def Let_def initState_def appendAt_def tagToken_def)
  have w: "isWord ''if''"
    by (simp add: isWord_def wordChar_def)
  have q: "Quote emptyTable ''if'' = [CHR 0x22, CHR ''i'', CHR ''f'', CHR 0x22]"
    using w by (simp add: Quote_word)
  from unterminated_block [OF run opn, where tbl = emptyTable] obtain b msg where
      b: "bn ?s = Some b"
      and res: "parseTokens emptyTable standardGrammar keepSource [?tok] = Inl (Errorf (Token (blocks ?s ! b)) msg)"
      and msg: "msg = ''unterminated '' @ Quote emptyTable (Name (Token (blocks ?s ! b))) @ '' block''"
      and sub: "isWord (Name (Token (blocks ?s ! b))) \<longrightarrow> sublist (Name (Token (blocks ?s ! b))) msg"
    by blast
  have b0: "b = 0"
    using b nm(3) by simp
  have r1: "parseTokens emptyTable standardGrammar keepSource [?tok]
      = Inl (Errorf ?tok (''unterminated '' @ Quote emptyTable ''if'' @ '' block''))"
    using res msg nm(1,2) unfolding b0 by simp
  have r2: "sublist ''if'' (''unterminated '' @ Quote emptyTable ''if'' @ '' block'')"
    using sub msg nm(1) w unfolding b0 by simp
  show ?thesis
    using run opn w r1 r2 q nm(3) by simp
qed

text \<open>
  C3 (amended). Outside comment and raw regions, a tag other than comment and raw whose
  registered syntax requires a parent, met when no block is open or when the syntax
  cannot have the current block as its parent, ends the parse at once, whatever follows,
  with an error located at the tag. The message is the tag's name, "not inside", and the
  parent tags joined by "or"; when a block is open it goes on with "; immediate parent
  is" and that block's tag name, and when none is open it ends there.
\<close>

theorem required_parent_error:
  assumes run: "parseLoop g pe pre initState = Inr s"
    and normal: "\<not> inComment s \<and> \<not> inRaw s"
    and tok: "Type tok = TagTokenType"
    and cs: "BlockSyntax g (Name tok) = Some cs"
    and name: "Name tok \<noteq> ''comment'' \<and> Name tok \<noteq> ''raw''"
    and req: "RequiresParent g cs"
    and parent: "sd s = None \<or> (\<exists>p. sd s = Some p \<and> \<not> CanHaveParent g cs p)"
  shows "parseTokens tbl g pe (pre @ tok # rest) =
           Inl (Errorf tok (Name tok @ '' not inside '' @ Join (ParentTags g cs) '' or ''
                  @ (case sd s of None \<Rightarrow> [] | Some p \<Rightarrow> ''; immediate parent is '' @ TagName g p)))"
proof -
  have "parseToken g pe tok s =
      Inl (Errorf tok (Name tok @ '' not inside '' @ Join (ParentTags g cs) '' or ''
                  @ (case sd s of None \<Rightarrow> [] | Some p \<Rightarrow> ''; immediate parent is '' @ TagName g p)))"
    using normal tok cs name req parent
    by (auto simp: parseToken_def notInsideMessage_def)
  then show ?thesis
    using run by (simp add: parseTokens_def parseLoop_append)
qed

theorem required_parent_error_witness:
  "parseTokens emptyTable standardGrammar keepSource [tagToken ''else'' [] ''{% else %}'', textToken ''a'']
     = Inl (Errorf (tagToken ''else'' [] ''{% else %}'') ''else not inside case or if or unless'')
   \<and> parseTokens emptyTable standardGrammar keepSource
        [tagToken ''for'' ''a in b'' ''{% for a in b %}'', tagToken ''else'' [] ''{% else %}'', textToken ''a'']
     = Inl (Errorf (tagToken ''else'' [] ''{% else %}'')
              ''else not inside case or if or unless; immediate parent is for'')"
proof -
  let ?else = "tagToken ''else'' [] ''{% else %}''"
  let ?for = "tagToken ''for'' ''a in b'' ''{% for a in b %}''"
  let ?s = "pushBlock ?for (blockStart ''for'') initState"
  have r0: "parseLoop standardGrammar keepSource [] initState = Inr (initState :: (blockSyntax, string) pstate)"
    by simp
  have r1: "parseLoop standardGrammar keepSource [?for] initState = Inr ?s"
    by (simp add: parseToken_def initState_def example_defs)
  have cs: "BlockSyntax standardGrammar (Name ?else) = Some (blockClause ''else'' [''case'', ''if'', ''unless''])"
    by (simp add: example_defs)
  show ?thesis
    using required_parent_error [OF r0 _ _ cs, where rest = "[textToken ''a'']" and tbl = emptyTable]
      required_parent_error [OF r1 _ _ cs, where rest = "[textToken ''a'']" and tbl = emptyTable]
    by (simp add: initState_def pushBlock_def Let_def appendAt_def example_defs)
qed

text \<open>A bare else: the message names no parent, and does not say "none".\<close>

theorem required_parent_error_counterexample:
  "parseTokens emptyTable standardGrammar keepSource [tagToken ''else'' [] ''{% else %}'']
     = Inl (Errorf (tagToken ''else'' [] ''{% else %}'') ''else not inside case or if or unless'')
   \<and> \<not> sublist ''none'' ''else not inside case or if or unless''"
proof -
  have "\<not> sublist ''none'' ''else not inside case or if or unless''"
    by code_simp
  then show ?thesis
    by (simp add: parser_defs example_defs)
qed

section \<open>Unregistered tags, from the parser to the compiler\<close>

lemma undefined_tag_aborts:
  fixes c :: "'r compilers" and t :: "'e Tree" and ts :: "'e Tree list"
  shows "tagCompilers c (Name tok) = None \<Longrightarrow> tagOccurs tok t \<Longrightarrow> isl (compileNode c t)"
    and "tagCompilers c (Name tok) = None \<Longrightarrow> tagOccursIn tok ts \<Longrightarrow> isl (compileNodes c ts)"
  by (induction c t and c ts rule: compileNode_compileNodes.induct)
     (auto split: sum.splits option.splits)

text \<open>
  C4 (amended). Outside comment and raw regions, a tag token whose name the grammar does
  not register is no error for the parser: it appends a plain Tag node at the insertion
  point, and the loop goes on. The name is looked up when the tree is compiled: a Tag
  node whose name has no registered tag compiler gives the "undefined tag" error, and a
  tree that holds such a node, at any depth, does not compile: the result is an error,
  not a partial compiled tree.
\<close>

theorem unregistered_tag:
  fixes c :: "'r compilers" and pe :: "string \<Rightarrow> 'x + 'e"
  assumes run: "parseLoop g pe pre initState = Inr s"
    and normal: "\<not> inComment s \<and> \<not> inRaw s"
    and tok: "Type tok = TagTokenType"
    and unreg: "BlockSyntax g (Name tok) = None"
  shows "parseLoop g pe (pre @ [tok]) initState = Inr (appendAt (ASTTag tok) s)
       \<and> (tagCompilers c (Name tok) = None \<longrightarrow>
            compileNode c (TTag tok :: 'e Tree) = Inl (UndefinedTag tok)
            \<and> sublist ''undefined tag'' (compileErrorMessage tbl (UndefinedTag tok))
            \<and> (\<forall>ts :: 'e Tree list. tagOccursIn tok ts \<longrightarrow> isl (compileNodes c ts)))"
proof -
  have "parseToken g pe tok s = Inr (appendAt (ASTTag tok) s)"
    using normal tok unreg by (simp add: parseToken_def)
  then have p: "parseLoop g pe (pre @ [tok]) initState = Inr (appendAt (ASTTag tok) s)"
    using run by (simp add: parseLoop_append)
  have "compileErrorMessage tbl (UndefinedTag tok) = ''undefined tag'' @ ('' '' @ Quote tbl (Name tok))"
    by simp
  then have m: "sublist ''undefined tag'' (compileErrorMessage tbl (UndefinedTag tok))"
    by (metis sublist_append_rightI)
  have a: "tagCompilers c (Name tok) = None \<Longrightarrow> tagOccursIn tok ts \<Longrightarrow> isl (compileNodes c ts)"
    for ts :: "'e Tree list"
    by (rule undefined_tag_aborts(2))
  show ?thesis
    using p m a by simp
qed

text \<open>Inside a comment region a tag with an unregistered name leaves no Tag node.\<close>

theorem unregistered_tag_counterexample:
  "parseTokens emptyTable standardGrammar keepSource
     [tagToken ''comment'' [] ''{% comment %}'', tagToken ''undefined_tag'' [] ''{% undefined_tag %}'',
      tagToken ''endcomment'' [] ''{% endcomment %}'']
     = Inr \<lparr> seqChildren = [], seqBlocks = [], seqRaws = [] \<rparr>
   \<and> BlockSyntax standardGrammar ''undefined_tag'' = None"
  by (simp add: parser_defs example_defs)

theorem unregistered_tag_witness:
  "BlockSyntax compilerTestGrammar ''undefined_tag'' = None
   \<and> parseLoop compilerTestGrammar keepSource [tagToken ''undefined_tag'' [] ''{% undefined_tag %}''] initState
       = Inr (initState \<lparr> Children := [ASTTag (tagToken ''undefined_tag'' [] ''{% undefined_tag %}'')] \<rparr>)
   \<and> tagCompilers compilerTestCompilers ''undefined_tag'' = None
   \<and> compileNode compilerTestCompilers (TTag (tagToken ''undefined_tag'' [] ''{% undefined_tag %}'') :: string Tree)
       = Inl (UndefinedTag (tagToken ''undefined_tag'' [] ''{% undefined_tag %}''))
   \<and> isl (compileNodes compilerTestCompilers
         [TBlock (tagToken ''block'' [] ''{% block %}'')
            [TTag (tagToken ''undefined_tag'' [] ''{% undefined_tag %}'') :: string Tree] []])"
proof -
  let ?tok = "tagToken ''undefined_tag'' [] ''{% undefined_tag %}''"
  have r0: "parseLoop compilerTestGrammar keepSource [] initState
      = Inr (initState :: (blockSyntax, string) pstate)"
    by simp
  have n: "\<not> inComment (initState :: (blockSyntax, string) pstate)
      \<and> \<not> inRaw (initState :: (blockSyntax, string) pstate)"
    by (simp add: initState_def)
  have t: "Type ?tok = TagTokenType"
    by (simp add: tagToken_def)
  have u: "BlockSyntax compilerTestGrammar (Name ?tok) = None"
    by (simp add: example_defs)
  have o: "tagOccursIn ?tok [TBlock (tagToken ''block'' [] ''{% block %}'') [TTag ?tok :: string Tree] []]"
    by simp
  show ?thesis
    using unregistered_tag [OF r0 n t u, of compilerTestCompilers] o u
    by (simp add: compilerTestCompilers_def initState_def appendAt_def tagToken_def)
qed

text \<open>The three cases of the compiler tests, from the tokens to the compile error.\<close>

lemma compile_undefined_tag:
  "(case parseTokens emptyTable compilerTestGrammar keepSource
     [tagToken ''undefined_tag'' [] ''{% undefined_tag %}''] of
      Inl e \<Rightarrow> None
    | Inr ast \<Rightarrow> map_option (compileNodes compilerTestCompilers) (readRoot ast))
   = Some (Inl (UndefinedTag (tagToken ''undefined_tag'' [] ''{% undefined_tag %}'')))"
  by (simp add: parser_defs example_defs readRoot_def compilerTestCompilers_def)

lemma compile_error_block:
  "(case parseTokens emptyTable compilerTestGrammar keepSource
     [tagToken ''error_block'' [] ''{% error_block %}'',
      tagToken ''enderror_block'' [] ''{% enderror_block %}''] of
      Inl e \<Rightarrow> None
    | Inr ast \<Rightarrow> map_option (compileNodes compilerTestCompilers) (readRoot ast))
   = Some (Inl (CompilerError (tagToken ''error_block'' [] ''{% error_block %}'') ''block compiler error''))"
  by (simp add: parser_defs example_defs readRoot_def compilerTestCompilers_def)

lemma compile_undefined_tag_in_block:
  "(case parseTokens emptyTable compilerTestGrammar keepSource
     [tagToken ''block'' [] ''{% block %}'', tagToken ''undefined_tag'' [] ''{% undefined_tag %}'',
      tagToken ''endblock'' [] ''{% endblock %}''] of
      Inl e \<Rightarrow> None
    | Inr ast \<Rightarrow> map_option (compileNodes compilerTestCompilers) (readRoot ast))
   = Some (Inl (UndefinedTag (tagToken ''undefined_tag'' [] ''{% undefined_tag %}'')))"
  by (simp add: parser_defs example_defs readRoot_def compilerTestCompilers_def)

section \<open>Conversion to the boolean type\<close>

lemma Convert_to_bool:
  "Convert v TBool = Inr (VBool (\<not> (ToLiquid v = VNil \<or> ToLiquid v = VBool False)))"
proof (cases "ToLiquid v")
  case (VBool b)
  then show ?thesis
    by (subst Convert.simps) (simp add: ConvertibleTo_def)
qed (subst Convert.simps, simp add: ConvertibleTo_def)+

text \<open>
  C10 (amended). Conversion to the boolean type always succeeds. The result is false
  exactly when the value, once \<open>ToLiquid\<close> has replaced a drop by what it stands for,
  is nil or the boolean false; for a value that is not a drop this is the value itself.
  The integer 0 and the empty string convert to true.
\<close>

theorem Convert_bool:
  "Convert v TBool = Inr (VBool (\<not> (ToLiquid v = VNil \<or> ToLiquid v = VBool False)))
   \<and> ((\<forall>w. v \<noteq> VDrop w) \<longrightarrow> Convert v TBool = Inr (VBool (\<not> (v = VNil \<or> v = VBool False))))
   \<and> Convert (VInt 0) TBool = Inr (VBool True)
   \<and> Convert (VString []) TBool = Inr (VBool True)"
proof -
  have "(\<forall>w. v \<noteq> VDrop w) \<Longrightarrow> ToLiquid v = v"
    by (cases v) simp_all
  then show ?thesis
    by (simp add: Convert_to_bool)
qed

theorem Convert_bool_witness:
  "(\<forall>w. VInt 7 \<noteq> VDrop w)
   \<and> Convert (VInt 7) TBool = Inr (VBool True)
   \<and> Convert VNil TBool = Inr (VBool False)
   \<and> Convert (VBool False) TBool = Inr (VBool False)
   \<and> Convert (VBool True) TBool = Inr (VBool True)
   \<and> Convert (VDrop (VString ''red'')) TBool = Inr (VBool True)"
  using Convert_bool [of "VInt 7"] Convert_bool [of VNil] Convert_bool [of "VBool False"]
    Convert_bool [of "VBool True"] Convert_bool [of "VDrop (VString ''red'')"]
  by simp

text \<open>A drop that stands for nil is neither nil nor the boolean false, and converts to false.\<close>

theorem Convert_bool_counterexample:
  "VDrop VNil \<noteq> VNil \<and> VDrop VNil \<noteq> VBool False
   \<and> Convert (VDrop VNil) TBool = Inr (VBool False)"
  by (subst Convert.simps) simp

text \<open>The drop of the conversion tests converts to the string it stands for.\<close>

lemma Convert_redConvertible: "Convert (VDrop (VString ''red'')) TString = Inr (VString ''red'')"
  by (subst Convert.simps) simp

end
